theory Spec2Isabelle
  imports Complex_Main
begin

section \<open>ISS analysis pipeline: fetcher, generator and stream processing\<close>

text \<open>
  The development embeds three source files:
  \<^item> \<^verbatim>\<open>utils/iss_data_fetcher.py\<close>: \<^verbatim>\<open>fetch_position\<close> (bounded retry with
    exponential backoff) and \<^verbatim>\<open>calculate_velocity\<close> (haversine distance over time);
  \<^item> \<^verbatim>\<open>streaming/iss_data_generator.py\<close>: the polling loop of \<^verbatim>\<open>generate_stream\<close>
    and \<^verbatim>\<open>distance_to_paris\<close>;
  \<^item> \<^verbatim>\<open>streaming/iss_spark_streaming.py\<close>: the per-row column expressions of
    \<^verbatim>\<open>process_stream\<close>.

  Python's \<^verbatim>\<open>float\<close> is idealised as \<^typ>\<open>real\<close>: \<^verbatim>\<open>sin\<close>, \<^verbatim>\<open>cos\<close>, \<^verbatim>\<open>sqrt\<close>, the
  arithmetic and the comparisons are the exact ones, so no statement below speaks about
  binary rounding error, NaN or infinities. Python's \<^verbatim>\<open>int\<close> is \<^typ>\<open>int\<close>.
\<close>

subsection \<open>The functions of Python's \<^verbatim>\<open>math\<close> module and \<^verbatim>\<open>round\<close>\<close>

datatype error = ValueError | KeyError

text \<open>\<^verbatim>\<open>math.radians(x)\<close>: degrees to radians.\<close>

definition radians :: "real \<Rightarrow> real" where
  "radians x = x * pi / 180"

text \<open>\<^verbatim>\<open>math.sqrt(x)\<close> raises \<^verbatim>\<open>ValueError\<close> ("math domain error") on a negative argument.\<close>

definition math_sqrt :: "real \<Rightarrow> error + real" where
  "math_sqrt x = (if x < 0 then Inl ValueError else Inr (sqrt x))"

text \<open>\<^verbatim>\<open>math.atan2(y, x)\<close>: the angle of the point \<open>(x, y)\<close>, in \<open>(-pi, pi]\<close>.\<close>

definition atan2 :: "real \<Rightarrow> real \<Rightarrow> real" where
  "atan2 y x =
     (if 0 < x then arctan (y / x)
      else if x < 0 then (if 0 \<le> y then arctan (y / x) + pi else arctan (y / x) - pi)
      else if 0 < y then pi / 2
      else if y < 0 then - (pi / 2)
      else 0)"

text \<open>
  \<^verbatim>\<open>round(x, ndigits)\<close> on a float: the nearest multiple of \<open>10 ^ (- ndigits)\<close>, a tie
  going to the even multiple.
\<close>

definition round_half_even :: "real \<Rightarrow> int" where
  "round_half_even x =
     (let f = \<lfloor>x\<rfloor>; d = x - of_int f
      in if d < 1 / 2 then f
         else if 1 / 2 < d then f + 1
         else if even f then f else f + 1)"

definition py_round :: "real \<Rightarrow> nat \<Rightarrow> real" where
  "py_round x ndigits = of_int (round_half_even (x * 10 ^ ndigits)) / 10 ^ ndigits"

subsection \<open>\<^verbatim>\<open>ISSDataFetcher.calculate_velocity\<close>\<close>

text \<open>
  \<^verbatim>\<open>
  R = 6371
  lat1, lon1, lat2, lon2 = map(radians, [lat1, lon1, lat2, lon2])
  dlat = lat2 - lat1
  dlon = lon2 - lon1
  a = sin(dlat/2)**2 + cos(lat1) * cos(lat2) * sin(dlon/2)**2
  c = 2 * atan2(sqrt(a), sqrt(1-a))
  distance = R * c
  if time_diff > 0:
      return distance / time_diff
  return 0.0
  \<close>
\<close>

definition calculate_velocity :: "real \<Rightarrow> real \<Rightarrow> real \<Rightarrow> real \<Rightarrow> real \<Rightarrow> error + real" where
  "calculate_velocity lat1 lon1 lat2 lon2 time_diff =
     (let R = 6371;
          rlat1 = radians lat1; rlon1 = radians lon1;
          rlat2 = radians lat2; rlon2 = radians lon2;
          dlat = rlat2 - rlat1;
          dlon = rlon2 - rlon1;
          a = (sin (dlat / 2))\<^sup>2 + cos rlat1 * cos rlat2 * (sin (dlon / 2))\<^sup>2
      in case math_sqrt a of
           Inl e \<Rightarrow> Inl e
         | Inr sa \<Rightarrow>
             (case math_sqrt (1 - a) of
                Inl e \<Rightarrow> Inl e
              | Inr sb \<Rightarrow>
                  (let c = 2 * atan2 sa sb;
                       distance = R * c
                   in if 0 < time_diff then Inr (distance / time_diff) else Inr 0)))"

subsection \<open>The position dictionary\<close>

text \<open>
  \<^verbatim>\<open>fetch_position\<close> returns a dictionary with the keys \<^verbatim>\<open>latitude\<close>, \<^verbatim>\<open>longitude\<close>,
  \<^verbatim>\<open>timestamp\<close>, \<^verbatim>\<open>fetch_time\<close> and \<^verbatim>\<open>altitude_km\<close>; \<^verbatim>\<open>generate_stream\<close> then adds the
  keys \<^verbatim>\<open>velocity_km_s\<close>, \<^verbatim>\<open>orbit_phase\<close> and \<^verbatim>\<open>distance_to_paris_km\<close> to the same
  dictionary. A key that has not been set yet is \<open>None\<close>.
\<close>

record position =
  latitude :: real
  longitude :: real
  timestamp :: int
  fetch_time :: string
  altitude_km :: real
  velocity_km_s :: "real option"
  orbit_phase :: "string option"
  distance_to_paris_km :: "real option"

subsection \<open>\<^verbatim>\<open>ISSDataFetcher.fetch_position\<close>\<close>

text \<open>
  What one \<^verbatim>\<open>requests.get\<close> with the following \<^verbatim>\<open>raise_for_status\<close> and \<^verbatim>\<open>json\<close> gives:
  a \<^verbatim>\<open>RequestException\<close>, a body whose \<^verbatim>\<open>message\<close> is not \<^verbatim>\<open>'success'\<close>, a
  \<^verbatim>\<open>'success'\<close> body with the three values read from it, or a \<^verbatim>\<open>'success'\<close> body
  on which a lookup or a conversion raises (no handler of \<^verbatim>\<open>fetch_position\<close> catches
  that).
\<close>

datatype response =
    RequestException
  | Message_other
  | Success real real int
  | Malformed error

text \<open>The effects of the fetcher, in order: a request, or a \<^verbatim>\<open>time.sleep\<close> of some seconds.\<close>

datatype event = Get | Sleep nat

text \<open>\<^verbatim>\<open>__init__(self, max_retries: int = 3)\<close>\<close>

record fetcher =
  max_retries :: int

definition ISSDataFetcher :: fetcher where
  "ISSDataFetcher = \<lparr>max_retries = 3\<rparr>"

text \<open>
  \<^verbatim>\<open>
  for attempt in range(self.max_retries):
      try:
          response = requests.get(self.ISS_POSITION_URL, timeout=10)
          response.raise_for_status()
          data = response.json()
          if data.get('message') == 'success':
              position = data['iss_position']
              return {'latitude': float(position['latitude']),
                      'longitude': float(position['longitude']),
                      'timestamp': int(data['timestamp']),
                      'fetch_time': datetime.now().isoformat(),
                      'altitude_km': 408.0}
      except requests.RequestException as e:
          if attempt == self.max_retries - 1:
              return None
          wait_time = 2 ** attempt
          time.sleep(wait_time)
  return None
  \<close>
  \<open>net k\<close> is the outcome of the request of attempt \<open>k\<close>, \<open>now\<close> the clock's
  \<^verbatim>\<open>isoformat\<close>; the result is the returned value (or the escaping exception) with the
  trace of requests and sleeps.
\<close>

function fetch_loop ::
  "fetcher \<Rightarrow> (nat \<Rightarrow> response) \<Rightarrow> string \<Rightarrow> nat \<Rightarrow> event list
     \<Rightarrow> (error + position option) \<times> event list" where
  "fetch_loop self net now attempt trace =
     (if int attempt < max_retries self then
        (case net attempt of
           Success lat lon ts \<Rightarrow>
             (Inr (Some \<lparr>latitude = lat, longitude = lon, timestamp = ts,
                          fetch_time = now, altitude_km = 408,
                          velocity_km_s = None, orbit_phase = None,
                          distance_to_paris_km = None\<rparr>),
              trace @ [Get])
         | Malformed e \<Rightarrow> (Inl e, trace @ [Get])
         | Message_other \<Rightarrow> fetch_loop self net now (attempt + 1) (trace @ [Get])
         | RequestException \<Rightarrow>
             (if int attempt = max_retries self - 1 then (Inr None, trace @ [Get])
              else fetch_loop self net now (attempt + 1)
                     (trace @ [Get, Sleep (2 ^ attempt)])))
      else (Inr None, trace))"
  by pat_completeness auto
termination
  by (relation "measure (\<lambda>(self, net, now, attempt, trace). nat (max_retries self - int attempt))")
     auto

definition fetch_position ::
  "fetcher \<Rightarrow> (nat \<Rightarrow> response) \<Rightarrow> string \<Rightarrow> (error + position option) \<times> event list" where
  "fetch_position self net now = fetch_loop self net now 0 []"

subsection \<open>\<^verbatim>\<open>ISSDataGenerator\<close>\<close>

text \<open>
  \<^verbatim>\<open>
  def __init__(self, output_dir: str, interval: int = 5):
      self.output_dir = output_dir
      self.interval = interval
      self.fetcher = ISSDataFetcher()
      self.previous_position = None
      self.paris_lat = 48.8566
      self.paris_lon = 2.3522
  \<close>
\<close>

record generator =
  output_dir :: string
  interval :: int
  the_fetcher :: fetcher
  previous_position :: "position option"
  paris_lat :: real
  paris_lon :: real

definition ISSDataGenerator :: "string \<Rightarrow> int \<Rightarrow> generator" where
  "ISSDataGenerator dir ival =
     \<lparr>output_dir = dir, interval = ival, the_fetcher = ISSDataFetcher,
      previous_position = None, paris_lat = 48.8566, paris_lon = 2.3522\<rparr>"

text \<open>
  \<^verbatim>\<open>
  def distance_to_paris(self, lat, lon):
      R = 6371
      lat1, lon1, lat2, lon2 = map(radians, [lat, lon, self.paris_lat, self.paris_lon])
      dlat = lat2 - lat1
      dlon = lon2 - lon1
      a = sin(dlat / 2) ** 2 + cos(lat1) * cos(lat2) * sin(dlon / 2) ** 2
      c = 2 * atan2(sqrt(a), sqrt(1 - a))
      return round(R * c, 2)
  \<close>
\<close>

definition distance_to_paris :: "generator \<Rightarrow> real \<Rightarrow> real \<Rightarrow> error + real" where
  "distance_to_paris self lat lon =
     (let R = 6371;
          lat1 = radians lat; lon1 = radians lon;
          lat2 = radians (paris_lat self); lon2 = radians (paris_lon self);
          dlat = lat2 - lat1;
          dlon = lon2 - lon1;
          a = (sin (dlat / 2))\<^sup>2 + cos lat1 * cos lat2 * (sin (dlon / 2))\<^sup>2
      in case math_sqrt a of
           Inl e \<Rightarrow> Inl e
         | Inr sa \<Rightarrow>
             (case math_sqrt (1 - a) of
                Inl e \<Rightarrow> Inl e
              | Inr sb \<Rightarrow>
                  (let c = 2 * atan2 sa sb
                   in Inr (py_round (R * c) 2))))"

text \<open>
  The enrichment of one fetched position, lines 64 to 86 of \<^verbatim>\<open>generate_stream\<close>:
  \<^verbatim>\<open>
  if self.previous_position:
      if position["latitude"] > self.previous_position["latitude"]:
          position["orbit_phase"] = "ASCENDING"
      else:
          position["orbit_phase"] = "DESCENDING"
      time_diff = position['timestamp'] - self.previous_position['timestamp']
      velocity = self.fetcher.calculate_velocity(
          self.previous_position['latitude'], self.previous_position['longitude'],
          position['latitude'], position['longitude'], time_diff)
      position['velocity_km_s'] = round(velocity, 4)
  else:
      position['velocity_km_s'] = 0.0
      position["orbit_phase"] = "UNKNOWN"
  position["distance_to_paris_km"] = self.distance_to_paris(
      position["latitude"], position["longitude"])
  \<close>
  A stored previous position is a dictionary with keys, so it is true in the \<^verbatim>\<open>if\<close>.
\<close>

definition enrich_motion :: "generator \<Rightarrow> position \<Rightarrow> error + position" where
  "enrich_motion self position =
     (case previous_position self of
        Some prev \<Rightarrow>
          (let position1 = position\<lparr>orbit_phase :=
                 Some (if latitude prev < latitude position then ''ASCENDING''
                       else ''DESCENDING'')\<rparr>;
               time_diff = timestamp position1 - timestamp prev
           in case calculate_velocity (latitude prev) (longitude prev)
                     (latitude position1) (longitude position1) (of_int time_diff) of
                Inl e \<Rightarrow> Inl e
              | Inr velocity \<Rightarrow>
                  Inr (position1\<lparr>velocity_km_s := Some (py_round velocity 4)\<rparr>))
      | None \<Rightarrow>
          Inr (position\<lparr>velocity_km_s := Some 0, orbit_phase := Some ''UNKNOWN''\<rparr>))"

definition enrich :: "generator \<Rightarrow> position \<Rightarrow> error + position" where
  "enrich self position =
     (case enrich_motion self position of
        Inl e \<Rightarrow> Inl e
      | Inr position1 \<Rightarrow>
          (case distance_to_paris self (latitude position1) (longitude position1) of
             Inl e \<Rightarrow> Inl e
           | Inr d \<Rightarrow> Inr (position1\<lparr>distance_to_paris_km := Some d\<rparr>)))"

text \<open>
  The state of a run of \<^verbatim>\<open>generate_stream\<close>: the generator object, the local counter
  \<^verbatim>\<open>data_points\<close>, the files written so far (path and dumped dictionary, in the order
  of writing) and the sleeps done.
\<close>

record stream_state =
  gen :: generator
  data_points :: int
  files :: "(string \<times> position) list"
  slept :: "int list"

definition start_stream :: "generator \<Rightarrow> stream_state" where
  "start_stream self = \<lparr>gen = self, data_points = 0, files = [], slept = []\<rparr>"

text \<open>\<^verbatim>\<open>os.path.join(dir, filename)\<close> for a file name without a slash.\<close>

definition os_path_join :: "string \<Rightarrow> string \<Rightarrow> string" where
  "os_path_join dir filename =
     (if dir = [] then filename
      else if last dir = CHR ''/'' then dir @ filename
      else dir @ ''/'' @ filename)"

text \<open>
  One iteration of the \<^verbatim>\<open>while\<close> loop, lines 59 to 103. Its inputs are what
  \<^verbatim>\<open>self.fetcher.fetch_position()\<close> returned and the \<^verbatim>\<open>strftime\<close> of the clock used in
  the file name. The result is the state after the iteration together with the exception
  that left it, if one did: \<^verbatim>\<open>math.sqrt\<close> on a negative number, or \<^verbatim>\<open>time.sleep\<close> on a
  negative interval. The file system is taken to accept every write, and the
  \<^verbatim>\<open>KeyboardInterrupt\<close> of the user, which can arrive at any point, is left out.
  \<^verbatim>\<open>
  if position:
      <enrichment>
      timestamp = datetime.now().strftime("%Y%m%d_%H%M%S_%f")
      filename = f"iss_data_{timestamp}.json"
      filepath = os.path.join(self.output_dir, filename)
      with open(filepath, 'w') as f:
          json.dump(position, f)
      data_points += 1
      self.previous_position = position
  time.sleep(self.interval)
  \<close>
\<close>

definition on_position :: "stream_state \<Rightarrow> position option \<Rightarrow> string \<Rightarrow> stream_state \<times> error option" where
  "on_position st fetched now =
     (case fetched of
        None \<Rightarrow> (st, None)
      | Some position \<Rightarrow>
          (case enrich (gen st) position of
             Inl e \<Rightarrow> (st, Some e)
           | Inr position1 \<Rightarrow>
               (let filename = ''iss_data_'' @ now @ ''.json'';
                    filepath = os_path_join (output_dir (gen st)) filename
                in (st\<lparr>files := files st @ [(filepath, position1)],
                       data_points := data_points st + 1,
                       gen := (gen st)\<lparr>previous_position := Some position1\<rparr>\<rparr>,
                    None))))"

definition poll_cycle :: "stream_state \<Rightarrow> position option \<Rightarrow> string \<Rightarrow> stream_state \<times> error option" where
  "poll_cycle st fetched now =
     (case on_position st fetched now of
        (st1, Some e) \<Rightarrow> (st1, Some e)
      | (st1, None) \<Rightarrow>
          (if interval (gen st1) < 0 then (st1, Some ValueError)
           else (st1\<lparr>slept := slept st1 @ [interval (gen st1)]\<rparr>, None)))"

text \<open>
  The loop \<^verbatim>\<open>while (time.time() - start_time) < duration\<close>: the clock decides how many
  iterations run, so the loop is driven by the list of the inputs of its iterations, and
  an exception ends it.
\<close>

fun generate_stream ::
  "stream_state \<Rightarrow> (position option \<times> string) list \<Rightarrow> stream_state \<times> error option" where
  "generate_stream st [] = (st, None)"
| "generate_stream st ((fetched, now) # cycles) =
     (case poll_cycle st fetched now of
        (st1, Some e) \<Rightarrow> (st1, Some e)
      | (st1, None) \<Rightarrow> generate_stream st1 cycles)"

subsection \<open>\<^verbatim>\<open>ISSSparkStreaming.process_stream\<close>\<close>

text \<open>
  A row of the stream read with the schema of \<^verbatim>\<open>_define_schema\<close>: every field is
  nullable (\<^verbatim>\<open>StructField(name, type, True)\<close>), and \<open>None\<close> is SQL's \<^verbatim>\<open>NULL\<close>.
\<close>

record raw_row =
  latitude :: "real option"
  longitude :: "real option"
  timestamp :: "int option"
  fetch_time :: "string option"
  altitude_km :: "real option"
  velocity_km_s :: "real option"
  distance_to_paris_km :: "real option"
  orbit_phase :: "string option"

text \<open>The row after \<^verbatim>\<open>process_stream\<close>: the three columns added by \<^verbatim>\<open>withColumn\<close>.\<close>

record processed_row = raw_row +
  event_time :: "int option"
  hemisphere_ns :: string
  hemisphere_ew :: string

text \<open>
  The file written by \<^verbatim>\<open>json.dump(position, f)\<close>, read back through the schema: each key
  of the dictionary is the column of the same name.
\<close>

definition json_row :: "position \<Rightarrow> raw_row" where
  "json_row p =
     \<lparr>latitude = Some (position.latitude p),
      longitude = Some (position.longitude p),
      timestamp = Some (position.timestamp p),
      fetch_time = Some (position.fetch_time p),
      altitude_km = Some (position.altitude_km p),
      velocity_km_s = position.velocity_km_s p,
      distance_to_paris_km = position.distance_to_paris_km p,
      orbit_phase = position.orbit_phase p\<rparr>"

text \<open>\<^verbatim>\<open>col(c) >= x\<close>: a comparison with \<^verbatim>\<open>NULL\<close> is \<^verbatim>\<open>NULL\<close>.\<close>

definition col_ge :: "real option \<Rightarrow> real \<Rightarrow> bool option" where
  "col_ge c x = (case c of None \<Rightarrow> None | Some v \<Rightarrow> Some (x \<le> v))"

text \<open>
  \<^verbatim>\<open>when(cond, v).otherwise(w)\<close>: \<open>v\<close> where the condition is true, \<open>w\<close> where it is
  false or \<^verbatim>\<open>NULL\<close>.
\<close>

definition when_otherwise :: "bool option \<Rightarrow> 'a \<Rightarrow> 'a \<Rightarrow> 'a" where
  "when_otherwise cond v w = (case cond of Some True \<Rightarrow> v | _ \<Rightarrow> w)"

text \<open>
  \<^verbatim>\<open>pyspark.sql.functions.round(c, scale)\<close>: rounding to \<open>scale\<close> decimals, a tie going
  away from zero (\<^verbatim>\<open>HALF_UP\<close>); \<^verbatim>\<open>NULL\<close> stays \<^verbatim>\<open>NULL\<close>.
\<close>

definition round_half_up :: "real \<Rightarrow> int" where
  "round_half_up x = (if 0 \<le> x then \<lfloor>x + 1 / 2\<rfloor> else - \<lfloor>- x + 1 / 2\<rfloor>)"

definition spark_round :: "real option \<Rightarrow> nat \<Rightarrow> real option" where
  "spark_round c scale =
     map_option (\<lambda>x. of_int (round_half_up (x * 10 ^ scale)) / 10 ^ scale) c"

text \<open>\<^verbatim>\<open>to_timestamp\<close> of a \<^verbatim>\<open>LongType\<close> column: the seconds since the epoch as a timestamp.\<close>

definition to_timestamp :: "int option \<Rightarrow> int option" where
  "to_timestamp c = c"

text \<open>
  \<^verbatim>\<open>
  df = df.withColumn("event_time", to_timestamp(col("timestamp")))
  df = df.withColumn("hemisphere_ns", when(col("latitude") >= 0, "North").otherwise("South"))
  df = df.withColumn("hemisphere_ew", when(col("longitude") >= 0, "East").otherwise("West"))
  df = df.withColumn("latitude", spark_round(col("latitude"), 4))
  df = df.withColumn("longitude", spark_round(col("longitude"), 4))
  df = df.withColumn("velocity_km_s", spark_round(col("velocity_km_s"), 4))
  \<close>
  The column expressions work row by row; this is what they do to one row.
\<close>

definition process_stream :: "raw_row \<Rightarrow> processed_row" where
  "process_stream df =
     (let new_event_time = to_timestamp (raw_row.timestamp df);
          new_hemisphere_ns = when_otherwise (col_ge (raw_row.latitude df) 0) ''North'' ''South'';
          new_hemisphere_ew = when_otherwise (col_ge (raw_row.longitude df) 0) ''East'' ''West'';
          new_latitude = spark_round (raw_row.latitude df) 4;
          new_longitude = spark_round (raw_row.longitude df) 4;
          new_velocity_km_s = spark_round (raw_row.velocity_km_s df) 4
      in \<lparr>latitude = new_latitude,
          longitude = new_longitude,
          timestamp = raw_row.timestamp df,
          fetch_time = raw_row.fetch_time df,
          altitude_km = raw_row.altitude_km df,
          velocity_km_s = new_velocity_km_s,
          distance_to_paris_km = raw_row.distance_to_paris_km df,
          orbit_phase = raw_row.orbit_phase df,
          event_time = new_event_time,
          hemisphere_ns = new_hemisphere_ns,
          hemisphere_ew = new_hemisphere_ew\<rparr>)"

subsection \<open>The haversine distance of the specification\<close>

text \<open>
  The specification speaks of the great-circle distance by the haversine formula on a
  sphere of radius 6371 km. That is \<open>2 R arcsin (sqrt h)\<close>, where \<open>h\<close> is the haversine
  of the central angle between the two points; the coordinates are in degrees. The
  source computes the angle as \<^verbatim>\<open>2 * atan2(sqrt(a), sqrt(1 - a))\<close> instead, and the two
  are compared below.
\<close>

definition hav :: "real \<Rightarrow> real" where
  "hav \<theta> = (sin (\<theta> / 2))\<^sup>2"

definition haversine_km :: "real \<Rightarrow> real \<Rightarrow> real \<Rightarrow> real \<Rightarrow> real" where
  "haversine_km lat1 lon1 lat2 lon2 =
     2 * 6371 * arcsin (sqrt (hav (radians lat2 - radians lat1)
                               + cos (radians lat1) * cos (radians lat2)
                                 * hav (radians lon2 - radians lon1)))"

text \<open>
  Two positions are the same reading when they agree on latitude, longitude and event
  time; the wall-clock \<^verbatim>\<open>fetch_time\<close> and the enrichment keys are free.
\<close>

definition same_reading :: "position \<Rightarrow> position \<Rightarrow> bool" where
  "same_reading p q \<longleftrightarrow>
     position.latitude p = position.latitude q \<and>
     position.longitude p = position.longitude q \<and>
     position.timestamp p = position.timestamp q"

text \<open>
  The velocity of the specification: the haversine distance between the prior and the
  current position over the difference of their event times, rounded to 4 decimals, and
  \<open>0\<close> when no time has passed.
\<close>

definition spec_velocity :: "position \<Rightarrow> position \<Rightarrow> real" where
  "spec_velocity prev p =
     (if position.timestamp prev < position.timestamp p
      then py_round (haversine_km (position.latitude prev) (position.longitude prev)
                       (position.latitude p) (position.longitude p)
                     / of_int (position.timestamp p - position.timestamp prev)) 4
      else 0)"

text \<open>What a run shows of its state, the sleeps aside.\<close>

definition visible :: "stream_state \<Rightarrow> generator \<times> int \<times> (string \<times> position) list" where
  "visible st = (gen st, data_points st, files st)"

text \<open>
  The invariant of a run about its first written record: as long as nothing is written
  no previous position is stored, and once something is written the first record has the
  velocity \<open>0\<close> and the phase \<^verbatim>\<open>UNKNOWN\<close>.
\<close>

definition first_ok :: "stream_state \<Rightarrow> bool" where
  "first_ok st =
     (case files st of
        [] \<Rightarrow> previous_position (gen st) = None
      | (path, r) # rest \<Rightarrow>
          position.velocity_km_s r = Some 0 \<and> position.orbit_phase r = Some ''UNKNOWN'')"

subsection \<open>Example inputs\<close>

text \<open>A dictionary as \<^verbatim>\<open>fetch_position\<close> returns it.\<close>

definition fetched :: "real \<Rightarrow> real \<Rightarrow> int \<Rightarrow> string \<Rightarrow> position" where
  "fetched lat lon ts ft =
     \<lparr>position.latitude = lat, longitude = lon, timestamp = ts, fetch_time = ft,
      altitude_km = 408, velocity_km_s = None, orbit_phase = None,
      distance_to_paris_km = None\<rparr>"

text \<open>A generator that has already stored the given position.\<close>

definition generator_after :: "position \<Rightarrow> generator" where
  "generator_after prev = (ISSDataGenerator ''out'' 5)\<lparr>previous_position := Some prev\<rparr>"

text \<open>A row with the given coordinates and nothing else.\<close>

definition row_at :: "real option \<Rightarrow> real option \<Rightarrow> raw_row" where
  "row_at lat lon =
     \<lparr>raw_row.latitude = lat, longitude = lon, timestamp = None, fetch_time = None,
      altitude_km = None, velocity_km_s = None, distance_to_paris_km = None,
      orbit_phase = None\<rparr>"

section \<open>Auxiliary facts\<close>

subsection \<open>The argument of the square roots lies between 0 and 1\<close>

lemma cos_prod_half:
  fixes x y :: real
  shows "cos x * cos y = (cos ((x + y) / 2))\<^sup>2 - (sin ((y - x) / 2))\<^sup>2"
proof -
  define u where "u = (x + y) / 2"
  define v where "v = (y - x) / 2"
  have xy: "x - y = - (2 * v)" "x + y = 2 * u"
    by (simp_all add: u_def v_def diff_divide_distrib add_divide_distrib)
  have "cos x * cos y = (cos (x - y) + cos (x + y)) / 2"
    by (rule cos_times_cos)
  also have "\<dots> = (cos (2 * v) + cos (2 * u)) / 2"
    unfolding xy by simp
  also have "\<dots> = ((1 - 2 * (sin v)\<^sup>2) + (2 * (cos u)\<^sup>2 - 1)) / 2"
    using cos_double_sin [of v] cos_double_cos [of u] by (simp only:)
  also have "\<dots> = (cos u)\<^sup>2 - (sin v)\<^sup>2"
    by simp
  finally show ?thesis by (simp add: u_def v_def)
qed

text \<open>
  With \<open>t\<close> the squared sine of half the longitude difference, the argument is a
  mixture, with weights \<open>1 - t\<close> and \<open>t\<close>, of two squares of sines and cosines.
\<close>

lemma hav_convex:
  fixes x y e :: real
  defines "t \<equiv> (sin (e / 2))\<^sup>2"
  shows "(sin ((y - x) / 2))\<^sup>2 + cos x * cos y * t
       = (1 - t) * (sin ((y - x) / 2))\<^sup>2 + t * (cos ((x + y) / 2))\<^sup>2"
  unfolding cos_prod_half by (simp add: algebra_simps)

lemma sin_sq_range: "0 \<le> (sin (u::real))\<^sup>2 \<and> (sin u)\<^sup>2 \<le> 1"
  by (simp add: abs_square_le_1)

lemma cos_sq_range: "0 \<le> (cos (u::real))\<^sup>2 \<and> (cos u)\<^sup>2 \<le> 1"
  by (simp add: abs_square_le_1)

lemma convex_unit:
  fixes t p q :: real
  assumes "0 \<le> t" "t \<le> 1" "0 \<le> p" "p \<le> 1" "0 \<le> q" "q \<le> 1"
  shows "0 \<le> (1 - t) * p + t * q" "(1 - t) * p + t * q \<le> 1"
proof -
  show "0 \<le> (1 - t) * p + t * q" using assms by simp
  have "(1 - t) * p \<le> (1 - t) * 1" using assms by (intro mult_left_mono) auto
  moreover have "t * q \<le> t * 1" using assms by (intro mult_left_mono) auto
  ultimately show "(1 - t) * p + t * q \<le> 1" by simp
qed

lemma hav_range:
  fixes x y e :: real
  shows "0 \<le> (sin ((y - x) / 2))\<^sup>2 + cos x * cos y * (sin (e / 2))\<^sup>2"
    and "(sin ((y - x) / 2))\<^sup>2 + cos x * cos y * (sin (e / 2))\<^sup>2 \<le> 1"
  unfolding hav_convex
  using convex_unit [of "(sin (e / 2))\<^sup>2" "(sin ((y - x) / 2))\<^sup>2" "(cos ((x + y) / 2))\<^sup>2"]
        sin_sq_range [of "e / 2"] sin_sq_range [of "(y - x) / 2"] cos_sq_range [of "(x + y) / 2"]
  by blast+

subsection \<open>The source's \<^verbatim>\<open>atan2\<close> form is the arcsine form\<close>

lemma atan2_sqrt_arcsin:
  fixes a :: real
  assumes "0 \<le> a" "a \<le> 1"
  shows "atan2 (sqrt a) (sqrt (1 - a)) = arcsin (sqrt a)"
proof (cases "a = 1")
  case True
  then show ?thesis by (simp add: atan2_def)
next
  case False
  with assms have lt: "a < 1" by simp
  then have pos: "0 < sqrt (1 - a)" by simp
  have s1: "sqrt a < 1" using lt by simp
  have s0: "- 1 < sqrt a" using assms by (smt (verit) real_sqrt_ge_zero)
  have "arcsin (sqrt a) = arctan (sqrt a / sqrt (1 - (sqrt a)\<^sup>2))"
    using arcsin_arctan [OF s0 s1] .
  also have "(sqrt a)\<^sup>2 = a" using assms by simp
  finally show ?thesis using pos by (simp add: atan2_def)
qed

lemma math_sqrt_nonneg: "0 \<le> x \<Longrightarrow> math_sqrt x = Inr (sqrt x)"
  by (simp add: math_sqrt_def)

text \<open>Neither square root raises, and the velocity is the specification's distance over time.\<close>

lemma calculate_velocity_eq:
  "calculate_velocity lat1 lon1 lat2 lon2 td =
     Inr (if 0 < td then haversine_km lat1 lon1 lat2 lon2 / td else 0)"
proof -
  define a where "a = (sin ((radians lat2 - radians lat1) / 2))\<^sup>2
      + cos (radians lat1) * cos (radians lat2) * (sin ((radians lon2 - radians lon1) / 2))\<^sup>2"
  have r: "0 \<le> a" "a \<le> 1"
    unfolding a_def by (rule hav_range)+
  have c: "atan2 (sqrt a) (sqrt (1 - a)) = arcsin (sqrt a)"
    using r by (rule atan2_sqrt_arcsin)
  have "calculate_velocity lat1 lon1 lat2 lon2 td =
          Inr (if 0 < td then 6371 * (2 * atan2 (sqrt a) (sqrt (1 - a))) / td else 0)"
    using r by (simp add: calculate_velocity_def Let_def a_def [symmetric] math_sqrt_nonneg)
  also have "\<dots> = Inr (if 0 < td then haversine_km lat1 lon1 lat2 lon2 / td else 0)"
    unfolding c by (simp add: haversine_km_def hav_def a_def)
  finally show ?thesis .
qed

lemma distance_to_paris_eq:
  "distance_to_paris self lat lon =
     Inr (py_round (haversine_km lat lon (paris_lat self) (paris_lon self)) 2)"
proof -
  define a where "a = (sin ((radians (paris_lat self) - radians lat) / 2))\<^sup>2
      + cos (radians lat) * cos (radians (paris_lat self))
        * (sin ((radians (paris_lon self) - radians lon) / 2))\<^sup>2"
  have r: "0 \<le> a" "a \<le> 1"
    unfolding a_def by (rule hav_range)+
  have c: "atan2 (sqrt a) (sqrt (1 - a)) = arcsin (sqrt a)"
    using r by (rule atan2_sqrt_arcsin)
  have "distance_to_paris self lat lon =
          Inr (py_round (6371 * (2 * atan2 (sqrt a) (sqrt (1 - a)))) 2)"
    using r by (simp add: distance_to_paris_def Let_def a_def [symmetric] math_sqrt_nonneg)
  also have "\<dots> = Inr (py_round (haversine_km lat lon (paris_lat self) (paris_lon self)) 2)"
    unfolding c by (simp add: haversine_km_def hav_def a_def)
  finally show ?thesis .
qed

subsection \<open>Symmetry, the zero distance, rounding of zero\<close>

lemma hav_minus: "hav (- x) = hav x"
  by (simp add: hav_def power2_eq_square)

lemma haversine_km_sym: "haversine_km lat1 lon1 lat2 lon2 = haversine_km lat2 lon2 lat1 lon1"
proof -
  have "hav (radians lat2 - radians lat1) = hav (radians lat1 - radians lat2)"
    using hav_minus [of "radians lat1 - radians lat2"] by simp
  moreover have "hav (radians lon2 - radians lon1) = hav (radians lon1 - radians lon2)"
    using hav_minus [of "radians lon1 - radians lon2"] by simp
  ultimately show ?thesis
    by (simp add: haversine_km_def mult.commute)
qed

lemma haversine_km_same: "haversine_km lat lon lat lon = 0"
  by (simp add: haversine_km_def hav_def)

lemma round_half_even_0: "round_half_even 0 = 0"
  by (simp add: round_half_even_def)

lemma py_round_0: "py_round 0 n = 0"
  by (simp add: py_round_def round_half_even_0)

text \<open>
  \<^verbatim>\<open>round(x, n)\<close> is a number with \<open>n\<close> decimals, and it is off \<open>x\<close> by at most half a
  unit of the last decimal.
\<close>

lemma round_half_even_close: "\<bar>x - of_int (round_half_even x)\<bar> \<le> 1 / 2"
proof -
  have "of_int \<lfloor>x\<rfloor> \<le> x" "x < of_int \<lfloor>x\<rfloor> + 1" by linarith+
  then show ?thesis
    by (auto simp: round_half_even_def Let_def)
qed

lemma py_round_close: "\<bar>x - py_round x n\<bar> \<le> 1 / (2 * 10 ^ n)"
proof -
  have p: "(0::real) < 10 ^ n" by simp
  have "x - py_round x n = (x * 10 ^ n - of_int (round_half_even (x * 10 ^ n))) / 10 ^ n"
    using p by (simp add: py_round_def field_simps)
  then have "\<bar>x - py_round x n\<bar> = \<bar>x * 10 ^ n - of_int (round_half_even (x * 10 ^ n))\<bar> / 10 ^ n"
    using p by simp
  also have "\<dots> \<le> (1 / 2) / 10 ^ n"
    by (rule divide_right_mono [OF round_half_even_close]) simp
  finally show ?thesis by simp
qed

lemma py_round_decimal: "\<exists>k::int. py_round x n = of_int k / 10 ^ n"
  by (auto simp: py_round_def)

subsection \<open>The enrichment in closed form\<close>

lemma enrich_motion_eq:
  "enrich_motion self p =
     Inr (case previous_position self of
            None \<Rightarrow> p\<lparr>position.velocity_km_s := Some 0, position.orbit_phase := Some ''UNKNOWN''\<rparr>
          | Some prev \<Rightarrow>
              p\<lparr>position.orbit_phase :=
                    Some (if position.latitude prev < position.latitude p then ''ASCENDING''
                          else ''DESCENDING''),
                position.velocity_km_s := Some (spec_velocity prev p)\<rparr>)"
  by (cases "previous_position self")
     (simp_all add: enrich_motion_def Let_def calculate_velocity_eq py_round_0 spec_velocity_def)

lemma enrich_eq:
  "enrich self p =
     (case enrich_motion self p of
        Inl e \<Rightarrow> Inl e
      | Inr q \<Rightarrow>
          Inr (q\<lparr>position.distance_to_paris_km :=
                    Some (py_round (haversine_km (position.latitude p) (position.longitude p)
                                      (paris_lat self) (paris_lon self)) 2)\<rparr>))"
  by (cases "previous_position self")
     (simp_all add: enrich_def enrich_motion_eq distance_to_paris_eq)

subsection \<open>A cycle without a sample\<close>

lemma on_position_None: "on_position st None now = (st, None)"
  by (simp add: on_position_def)

lemma poll_cycle_None:
  "poll_cycle st None now =
     (if interval (gen st) < 0 then (st, Some ValueError)
      else (st\<lparr>slept := slept st @ [interval (gen st)]\<rparr>, None))"
  by (simp add: poll_cycle_def on_position_None)

lemma poll_cycle_None_visible: "visible (fst (poll_cycle st None now)) = visible st"
  by (simp add: poll_cycle_None visible_def)

lemma generate_stream_None_visible:
  "visible (fst (generate_stream st (map (Pair None) nows))) = visible st"
proof (induction nows arbitrary: st)
  case Nil
  then show ?case by simp
next
  case (Cons now nows)
  show ?case
  proof (cases "interval (gen st) < 0")
    case True
    then show ?thesis by (simp add: poll_cycle_None)
  next
    case False
    then have "generate_stream st (map (Pair None) (now # nows)) =
                 generate_stream (st\<lparr>slept := slept st @ [interval (gen st)]\<rparr>) (map (Pair None) nows)"
      by (simp add: poll_cycle_None)
    then show ?thesis using Cons.IH [of "st\<lparr>slept := slept st @ [interval (gen st)]\<rparr>"]
      by (simp add: visible_def)
  qed
qed

subsection \<open>The hemisphere columns\<close>

lemma when_col_ge:
  "when_otherwise (col_ge c x) v w = (if \<exists>y. c = Some y \<and> x \<le> y then v else w)"
  by (cases c) (simp_all add: when_otherwise_def col_ge_def split: bool.splits)

lemma process_stream_hemispheres:
  "hemisphere_ns (process_stream df)
     = (if \<exists>lat. raw_row.latitude df = Some lat \<and> 0 \<le> lat then ''North'' else ''South'')"
  "hemisphere_ew (process_stream df)
     = (if \<exists>lon. raw_row.longitude df = Some lon \<and> 0 \<le> lon then ''East'' else ''West'')"
  by (simp_all add: process_stream_def Let_def when_col_ge)

subsection \<open>One cycle with a sample, and the first record of a run\<close>

lemma enrich_closed:
  "enrich self p =
     Inr (p\<lparr>position.orbit_phase :=
               Some (case previous_position self of
                       None \<Rightarrow> ''UNKNOWN''
                     | Some prev \<Rightarrow>
                         if position.latitude prev < position.latitude p then ''ASCENDING''
                         else ''DESCENDING''),
             position.velocity_km_s :=
               Some (case previous_position self of
                       None \<Rightarrow> 0
                     | Some prev \<Rightarrow> spec_velocity prev p),
             position.distance_to_paris_km :=
               Some (py_round (haversine_km (position.latitude p) (position.longitude p)
                                 (paris_lat self) (paris_lon self)) 2)\<rparr>)"
  by (cases "previous_position self") (simp_all add: enrich_eq enrich_motion_eq)

lemma on_position_Some:
  "on_position st (Some p) now =
     (case enrich (gen st) p of
        Inl e \<Rightarrow> (st, Some e)
      | Inr q \<Rightarrow>
          (st\<lparr>files := files st @ [(os_path_join (output_dir (gen st)) (''iss_data_'' @ now @ ''.json''), q)],
              data_points := data_points st + 1,
              gen := (gen st)\<lparr>previous_position := Some q\<rparr>\<rparr>, None))"
  by (simp add: on_position_def Let_def split: sum.splits)

lemma first_ok_on_position: "first_ok st \<Longrightarrow> first_ok (fst (on_position st sample now))"
proof (cases sample)
  case None
  then show "first_ok st \<Longrightarrow> ?thesis" by (simp add: on_position_None)
next
  case (Some p)
  assume ok: "first_ok st"
  show ?thesis
  proof (cases "files st")
    case Nil
    then have "previous_position (gen st) = None" using ok by (simp add: first_ok_def)
    then show ?thesis using Nil Some
      by (simp add: on_position_Some enrich_closed first_ok_def)
  next
    case (Cons f fs)
    then show ?thesis using ok Some
      by (simp add: on_position_Some enrich_closed first_ok_def split: prod.splits)
  qed
qed

lemma files_poll_cycle:
  "files (fst (poll_cycle st sample now)) = files (fst (on_position st sample now))"
  by (cases "on_position st sample now") (auto simp: poll_cycle_def split: option.splits)

lemma gen_poll_cycle:
  "gen (fst (poll_cycle st sample now)) = gen (fst (on_position st sample now))"
  by (cases "on_position st sample now") (auto simp: poll_cycle_def split: option.splits)

lemma first_ok_poll_cycle: "first_ok st \<Longrightarrow> first_ok (fst (poll_cycle st sample now))"
  using first_ok_on_position [of st sample now]
  unfolding first_ok_def files_poll_cycle gen_poll_cycle .

lemma first_ok_generate_stream: "first_ok st \<Longrightarrow> first_ok (fst (generate_stream st cycles))"
proof (induction cycles arbitrary: st)
  case Nil
  then show ?case by simp
next
  case (Cons c cycles)
  obtain sample now where c: "c = (sample, now)" by (cases c)
  obtain st1 err where r: "poll_cycle st sample now = (st1, err)"
    by (cases "poll_cycle st sample now")
  have ok1: "first_ok st1" using first_ok_poll_cycle [OF Cons.prems, of sample now] r by simp
  show ?case
  proof (cases err)
    case None
    then show ?thesis using Cons.IH [OF ok1] c r by simp
  next
    case (Some e)
    then show ?thesis using ok1 c r by simp
  qed
qed

lemma spec_velocity_cong:
  "same_reading prev prev' \<Longrightarrow> same_reading p p' \<Longrightarrow> spec_velocity prev p = spec_velocity prev' p'"
  by (simp add: same_reading_def spec_velocity_def)

subsection \<open>The retry loop\<close>

text \<open>Every attempt from \<open>a\<close> on fails: the loop sleeps after each but the last.\<close>

lemma fetch_loop_all_fail:
  assumes "max_retries self = int n" and "\<forall>k<n. net k = RequestException"
  shows "a < n \<Longrightarrow>
     fetch_loop self net now a tr =
       (Inr None, tr @ concat (map (\<lambda>k. [Get, Sleep (2 ^ k)]) [a ..< n - 1]) @ [Get])"
proof (induction "n - a" arbitrary: a tr)
  case 0
  then show ?case by simp
next
  case (Suc d)
  then have an: "a < n" by simp
  have na: "net a = RequestException" using assms(2) an by simp
  show ?case
  proof (cases "a = n - 1")
    case True
    then show ?thesis
      using an na assms(1)
      by (subst fetch_loop.simps) simp
  next
    case False
    then have lt: "Suc a < n" using an by simp
    have d: "d = n - Suc a" using Suc.hyps(2) by simp
    have step: "fetch_loop self net now a tr =
                  fetch_loop self net now (a + 1) (tr @ [Get, Sleep (2 ^ a)])"
      using an na assms(1) False
      by (subst fetch_loop.simps) (simp add: of_nat_diff)
    have "[a ..< n - 1] = a # [Suc a ..< n - 1]"
      using lt by (simp add: upt_conv_Cons)
    then show ?thesis
      using Suc.hyps(1) [OF d lt, of "tr @ [Get, Sleep (2 ^ a)]"] step by simp
  qed
qed

text \<open>The attempts before \<open>j\<close> fail and attempt \<open>j\<close> succeeds.\<close>

lemma fetch_loop_fail_then_success:
  assumes "max_retries self = int n" and "j < n"
    and "\<forall>k<j. net k = RequestException" and "net j = Success lat lon ts"
  shows "a \<le> j \<Longrightarrow>
     fetch_loop self net now a tr =
       (Inr (Some \<lparr>position.latitude = lat, longitude = lon, timestamp = ts,
                    fetch_time = now, altitude_km = 408,
                    velocity_km_s = None, orbit_phase = None,
                    distance_to_paris_km = None\<rparr>),
        tr @ concat (map (\<lambda>k. [Get, Sleep (2 ^ k)]) [a ..< j]) @ [Get])"
proof (induction "j - a" arbitrary: a tr)
  case 0
  then have "a = j" by simp
  then show ?case using assms(1,2,4)
    by (subst fetch_loop.simps) simp
next
  case (Suc d)
  then have aj: "a < j" by simp
  then have an: "a < n" "int a \<noteq> int n - 1" using assms(2) by simp_all
  have na: "net a = RequestException" using assms(3) aj by simp
  have d: "d = j - Suc a" using Suc.hyps(2) by simp
  have step: "fetch_loop self net now a tr =
                fetch_loop self net now (a + 1) (tr @ [Get, Sleep (2 ^ a)])"
    using an na assms(1)
    by (subst fetch_loop.simps) simp
  have "[a ..< j] = a # [Suc a ..< j]"
    using aj by (simp add: upt_conv_Cons)
  then show ?case
    using Suc.hyps(1) [OF d, of "tr @ [Get, Sleep (2 ^ a)]"] aj step by simp
qed

text \<open>Whatever the network answers, the loop only extends the trace, by at most
  \<^verbatim>\<open>max_retries\<close> requests.\<close>

lemma fetch_loop_trace_grows:
  "\<exists>ys. snd (fetch_loop self net now a tr) = tr @ ys
        \<and> int (length (filter (\<lambda>e. e = Get) ys)) \<le> max (max_retries self - int a) 0"
proof (induction self net now a tr rule: fetch_loop.induct)
  case (1 self net now attempt trace)
  show ?case
  proof (cases "int attempt < max_retries self")
    case False
    then show ?thesis by (subst fetch_loop.simps) simp
  next
    case True
    show ?thesis
    proof (cases "net attempt")
      case RequestException
      show ?thesis
      proof (cases "int attempt = max_retries self - 1")
        case True
        then show ?thesis using RequestException
          by (subst fetch_loop.simps) simp
      next
        case False
        from "1.IH"(1) [OF True RequestException False]
        obtain ys where ys:
          "snd (fetch_loop self net now (attempt + 1) (trace @ [Get, Sleep (2 ^ attempt)]))
             = (trace @ [Get, Sleep (2 ^ attempt)]) @ ys"
          "int (length (filter (\<lambda>e. e = Get) ys)) \<le> max (max_retries self - int (attempt + 1)) 0"
          by blast
        have "snd (fetch_loop self net now attempt trace)
                = trace @ ([Get, Sleep (2 ^ attempt)] @ ys)"
          using True RequestException False ys(1)
          by (subst fetch_loop.simps) simp
        moreover have "int (length (filter (\<lambda>e. e = Get) ([Get, Sleep (2 ^ attempt)] @ ys)))
                        \<le> max (max_retries self - int attempt) 0"
          using ys(2) True by simp
        ultimately show ?thesis by blast
      qed
    next
      case Message_other
      from "1.IH"(2) [OF True Message_other]
      obtain ys where ys:
        "snd (fetch_loop self net now (attempt + 1) (trace @ [Get])) = (trace @ [Get]) @ ys"
        "int (length (filter (\<lambda>e. e = Get) ys)) \<le> max (max_retries self - int (attempt + 1)) 0"
        by blast
      have "snd (fetch_loop self net now attempt trace) = trace @ ([Get] @ ys)"
        using True Message_other ys(1)
        by (subst fetch_loop.simps) simp
      moreover have "int (length (filter (\<lambda>e. e = Get) ([Get] @ ys)))
                        \<le> max (max_retries self - int attempt) 0"
        using ys(2) True by simp
      ultimately show ?thesis by blast
    next
      case (Success lat lon ts)
      then show ?thesis using True
        by (subst fetch_loop.simps) simp
    next
      case (Malformed e)
      then show ?thesis using True
        by (subst fetch_loop.simps) simp
    qed
  qed
qed

subsection \<open>Spark's rounding\<close>

lemma round_half_up_of_int: "round_half_up (of_int k) = k"
proof (cases "0 \<le> k")
  case True
  have "\<lfloor>of_int k + (1 / 2 :: real)\<rfloor> = k" by linarith
  then show ?thesis using True by (simp add: round_half_up_def)
next
  case False
  have "\<lfloor>of_int (- k) + (1 / 2 :: real)\<rfloor> = - k" by linarith
  then show ?thesis using False by (simp add: round_half_up_def)
qed

text \<open>Rounding again what Python has rounded to the same number of decimals changes nothing.\<close>

lemma spark_round_py_round: "spark_round (Some (py_round x n)) n = Some (py_round x n)"
  by (simp add: spark_round_def py_round_def round_half_up_of_int)

lemma spark_round_0: "spark_round (Some 0) n = Some 0"
  using spark_round_py_round [of 0 n] by (simp add: py_round_0)

lemma round_half_up_sign:
  "(0 \<le> x \<longrightarrow> 0 \<le> round_half_up x) \<and> (x < 0 \<longrightarrow> round_half_up x \<le> 0)"
proof -
  have "0 \<le> x \<Longrightarrow> 0 \<le> \<lfloor>x + 1 / 2\<rfloor>" by linarith
  moreover have "x < 0 \<Longrightarrow> 0 \<le> \<lfloor>- x + 1 / 2\<rfloor>" by linarith
  ultimately show ?thesis by (auto simp: round_half_up_def)
qed

text \<open>A rounded value that is not zero has the sign of the value it comes from.\<close>

lemma spark_round_sign:
  assumes "spark_round c n = Some y"
  shows "(0 < y \<longrightarrow> (\<exists>x. c = Some x \<and> 0 < x)) \<and> (y < 0 \<longrightarrow> (\<exists>x. c = Some x \<and> x < 0))"
proof -
  from assms obtain x where c: "c = Some x"
    and y: "y = of_int (round_half_up (x * 10 ^ n)) / 10 ^ n"
    by (auto simp: spark_round_def)
  have p: "(0::real) < 10 ^ n" by simp
  have a: "0 < y \<Longrightarrow> 0 < x"
  proof (rule ccontr)
    assume "0 < y" "\<not> 0 < x"
    then have "x * 10 ^ n \<le> 0" using p by (simp add: mult_le_0_iff)
    then have "round_half_up (x * 10 ^ n) \<le> 0"
    proof (cases "x * 10 ^ n < 0")
      case True
      then show ?thesis using round_half_up_sign [of "x * 10 ^ n"] by simp
    next
      case False
      with \<open>x * 10 ^ n \<le> 0\<close> have "x * 10 ^ n = 0" by simp
      then show ?thesis using round_half_up_of_int [of 0] by simp
    qed
    then have "y \<le> 0" using y p by (simp add: divide_le_0_iff)
    with \<open>0 < y\<close> show False by simp
  qed
  have b: "y < 0 \<Longrightarrow> x < 0"
  proof (rule ccontr)
    assume "y < 0" "\<not> x < 0"
    then have "0 \<le> x * 10 ^ n" using p by simp
    then have "0 \<le> round_half_up (x * 10 ^ n)"
      using round_half_up_sign [of "x * 10 ^ n"] by simp
    then have "0 \<le> y" using y p by simp
    with \<open>y < 0\<close> show False by simp
  qed
  show ?thesis using a b c by simp
qed

lemma process_stream_rounded:
  "raw_row.latitude (process_stream df) = spark_round (raw_row.latitude df) 4"
  "raw_row.longitude (process_stream df) = spark_round (raw_row.longitude df) 4"
  "raw_row.velocity_km_s (process_stream df) = spark_round (raw_row.velocity_km_s df) 4"
  by (simp_all add: process_stream_def Let_def)

section \<open>The claims\<close>

text \<open>
  Claim C10. In a poll cycle whose fetch returned no sample (\<open>None\<close>), no output file
  is written, the stored previous position keeps its value and the counter of processed
  points does not advance. That holds as well when the cycle ends in the exception of
  \<^verbatim>\<open>time.sleep\<close>, and over any run of such cycles.
\<close>

theorem failed_fetch_leaves_state:
  "files (fst (poll_cycle st None now)) = files st
   \<and> previous_position (gen (fst (poll_cycle st None now))) = previous_position (gen st)
   \<and> data_points (fst (poll_cycle st None now)) = data_points st
   \<and> gen (fst (poll_cycle st None now)) = gen st
   \<and> files (fst (generate_stream st (map (Pair None) nows))) = files st
   \<and> previous_position (gen (fst (generate_stream st (map (Pair None) nows))))
       = previous_position (gen st)
   \<and> data_points (fst (generate_stream st (map (Pair None) nows))) = data_points st"
  using poll_cycle_None_visible [of st now] generate_stream_None_visible [of st nows]
  by (simp add: visible_def)

text \<open>
  Claim C2. With a prior sample present, the enriched \<^verbatim>\<open>velocity_km_s\<close> is the haversine
  great-circle distance (radius 6371 km) between the prior and the current position,
  divided by the difference of the event times and rounded to 4 decimals; where the
  elapsed time is zero or negative the velocity is \<open>0\<close>. No exception is raised on the
  way, and the rounding of \<^verbatim>\<open>process_stream\<close> leaves the value as it is.
\<close>

theorem velocity_is_haversine_over_elapsed:
  "(previous_position self = Some prev \<longrightarrow>
      (\<exists>r. enrich self p = Inr r
          \<and> position.velocity_km_s r =
              Some (if position.timestamp prev < position.timestamp p
                    then py_round (haversine_km (position.latitude prev) (position.longitude prev)
                                     (position.latitude p) (position.longitude p)
                                   / of_int (position.timestamp p - position.timestamp prev)) 4
                    else 0)
          \<and> raw_row.velocity_km_s (process_stream (json_row r)) = position.velocity_km_s r))
   \<and> (0 < td \<longrightarrow> calculate_velocity lat1 lon1 lat2 lon2 td
                     = Inr (haversine_km lat1 lon1 lat2 lon2 / td))
   \<and> (td \<le> 0 \<longrightarrow> calculate_velocity lat1 lon1 lat2 lon2 td = Inr 0)"
  by (simp add: enrich_closed calculate_velocity_eq spec_velocity_def json_row_def
        process_stream_rounded spark_round_py_round spark_round_0)

theorem velocity_is_haversine_over_elapsed_witness:
  "previous_position (generator_after (fetched 0 0 100 ''a'')) = Some (fetched 0 0 100 ''a'')
   \<and> (\<exists>r. enrich (generator_after (fetched 0 0 100 ''a'')) (fetched (9 / 100) 0 110 ''b'') = Inr r
         \<and> position.velocity_km_s r
             = Some (py_round (haversine_km 0 0 (9 / 100) 0 / 10) 4))
   \<and> calculate_velocity 0 0 (9 / 100) 0 10 = Inr (haversine_km 0 0 (9 / 100) 0 / 10)
   \<and> calculate_velocity 0 0 (9 / 100) 0 (- 5) = Inr 0"
  using velocity_is_haversine_over_elapsed
          [of "generator_after (fetched 0 0 100 ''a'')" "fetched 0 0 100 ''a''"
              "fetched (9 / 100) 0 110 ''b''" 10 0 0 "9 / 100" 0]
        velocity_is_haversine_over_elapsed
          [of "generator_after (fetched 0 0 100 ''a'')" "fetched 0 0 100 ''a''"
              "fetched (9 / 100) 0 110 ''b''" "- 5" 0 0 "9 / 100" 0]
  by (auto simp add: generator_after_def fetched_def)

text \<open>
  Claim C3. In a session that starts with no previous sample, the first enriched record
  has \<^verbatim>\<open>velocity_km_s = 0.0\<close> and \<^verbatim>\<open>orbit_phase = UNKNOWN\<close>: the enrichment of any sample
  gives these, and the first file written by any run of the loop holds them, however
  many cycles without a sample come first.
\<close>

theorem first_record_of_session:
  "previous_position self = None \<Longrightarrow>
     (\<exists>r. enrich self p = Inr r
         \<and> position.velocity_km_s r = Some 0 \<and> position.orbit_phase r = Some ''UNKNOWN'')
     \<and> (case files (fst (generate_stream (start_stream self) cycles)) of
          [] \<Rightarrow> True
        | (path, r) # rest \<Rightarrow>
            position.velocity_km_s r = Some 0 \<and> position.orbit_phase r = Some ''UNKNOWN'')"
proof -
  assume n: "previous_position self = None"
  then have "first_ok (start_stream self)"
    by (simp add: first_ok_def start_stream_def)
  then have "first_ok (fst (generate_stream (start_stream self) cycles))"
    by (rule first_ok_generate_stream)
  then show ?thesis using n
    by (simp add: first_ok_def enrich_closed split: list.splits prod.splits)
qed

theorem first_record_of_session_witness:
  "previous_position (ISSDataGenerator ''out'' 5) = None
   \<and> map (\<lambda>(path, r). (path, position.velocity_km_s r, position.orbit_phase r))
       (files (fst (generate_stream (start_stream (ISSDataGenerator ''out'' 5))
                      [(None, ''t0''), (Some (fetched 1 2 100 ''f''), ''t1''),
                       (Some (fetched 3 4 105 ''g''), ''t2'')])))
     = [(''out/iss_data_t1.json'', Some 0, Some ''UNKNOWN''),
        (''out/iss_data_t2.json'', Some (py_round (haversine_km 1 2 3 4 / 5) 4),
         Some ''ASCENDING'')]"
  using first_record_of_session
          [of "ISSDataGenerator ''out'' 5" "fetched 1 2 100 ''f''"
              "[(None, ''t0''), (Some (fetched 1 2 100 ''f''), ''t1''),
                (Some (fetched 3 4 105 ''g''), ''t2'')]"]
  by (simp add: ISSDataGenerator_def start_stream_def poll_cycle_def on_position_None
        on_position_Some enrich_closed os_path_join_def fetched_def spec_velocity_def)

text \<open>
  Claim C4. With a prior sample present, \<^verbatim>\<open>orbit_phase\<close> is \<^verbatim>\<open>ASCENDING\<close> exactly when
  the latitude of the current sample is strictly greater than that of the prior one, and
  \<^verbatim>\<open>DESCENDING\<close> otherwise, equal latitudes included; it is \<^verbatim>\<open>UNKNOWN\<close> exactly when there
  is no prior sample.
\<close>

theorem orbit_phase_by_latitude:
  "\<exists>r. enrich self p = Inr r
     \<and> (\<forall>prev. previous_position self = Some prev \<longrightarrow>
           (position.orbit_phase r = Some ''ASCENDING''
              \<longleftrightarrow> position.latitude prev < position.latitude p)
         \<and> (position.orbit_phase r = Some ''DESCENDING''
              \<longleftrightarrow> \<not> position.latitude prev < position.latitude p))
     \<and> (position.orbit_phase r = Some ''UNKNOWN'' \<longleftrightarrow> previous_position self = None)"
  by (cases "previous_position self") (simp_all add: enrich_closed)

theorem orbit_phase_by_latitude_witness:
  "(\<exists>r. enrich (generator_after (fetched 10 0 100 ''a'')) (fetched 11 0 105 ''b'') = Inr r
       \<and> position.orbit_phase r = Some ''ASCENDING'')
   \<and> (\<exists>r. enrich (generator_after (fetched 10 0 100 ''a'')) (fetched 10 3 105 ''b'') = Inr r
       \<and> position.orbit_phase r = Some ''DESCENDING'')
   \<and> (\<exists>r. enrich (ISSDataGenerator ''out'' 5) (fetched 10 3 105 ''b'') = Inr r
       \<and> position.orbit_phase r = Some ''UNKNOWN'')"
  using orbit_phase_by_latitude [of "generator_after (fetched 10 0 100 ''a'')" "fetched 11 0 105 ''b''"]
        orbit_phase_by_latitude [of "generator_after (fetched 10 0 100 ''a'')" "fetched 10 3 105 ''b''"]
        orbit_phase_by_latitude [of "ISSDataGenerator ''out'' 5" "fetched 10 3 105 ''b''"]
  by (auto simp add: generator_after_def ISSDataGenerator_def fetched_def)

text \<open>
  Claim C5. The haversine distance is symmetric in its two positions, and the distance
  of a position to itself is \<open>0\<close>. This is stated for the distance inside
  \<^verbatim>\<open>calculate_velocity\<close> (which a time difference of 1 returns as it is), for
  \<^verbatim>\<open>distance_to_paris\<close> with the sample and the reference exchanged, and for the formula
  of the specification.
\<close>

theorem haversine_symmetric_and_zero:
  "calculate_velocity lat1 lon1 lat2 lon2 1 = Inr (haversine_km lat1 lon1 lat2 lon2)
   \<and> calculate_velocity lat1 lon1 lat2 lon2 td = calculate_velocity lat2 lon2 lat1 lon1 td
   \<and> calculate_velocity lat1 lon1 lat1 lon1 td = Inr 0
   \<and> distance_to_paris (self\<lparr>paris_lat := lat2, paris_lon := lon2\<rparr>) lat1 lon1
       = distance_to_paris (self\<lparr>paris_lat := lat1, paris_lon := lon1\<rparr>) lat2 lon2
   \<and> distance_to_paris (self\<lparr>paris_lat := lat1, paris_lon := lon1\<rparr>) lat1 lon1 = Inr 0
   \<and> haversine_km lat1 lon1 lat2 lon2 = haversine_km lat2 lon2 lat1 lon1
   \<and> haversine_km lat1 lon1 lat1 lon1 = 0"
proof -
  have s: "haversine_km lat1 lon1 lat2 lon2 = haversine_km lat2 lon2 lat1 lon1"
    by (rule haversine_km_sym)
  show ?thesis
    by (simp add: calculate_velocity_eq distance_to_paris_eq haversine_km_same py_round_0 s)
qed

theorem haversine_symmetric_and_zero_witness:
  "calculate_velocity 10 20 30 40 1 = calculate_velocity 30 40 10 20 1
   \<and> calculate_velocity 10 20 10 20 1 = Inr 0
   \<and> distance_to_paris ((ISSDataGenerator ''out'' 5)\<lparr>paris_lat := 30, paris_lon := 40\<rparr>) 10 20
       = distance_to_paris ((ISSDataGenerator ''out'' 5)\<lparr>paris_lat := 10, paris_lon := 20\<rparr>) 30 40
   \<and> distance_to_paris ((ISSDataGenerator ''out'' 5)\<lparr>paris_lat := 10, paris_lon := 20\<rparr>) 10 20
       = Inr 0"
  using haversine_symmetric_and_zero [of 10 20 30 40 1 "ISSDataGenerator ''out'' 5"]
  by blast

text \<open>
  Claim C6. \<^verbatim>\<open>distance_to_paris_km\<close> is the haversine distance from the sample's position
  to the reference coordinate held by the generator (\<^verbatim>\<open>paris_lat\<close>, \<^verbatim>\<open>paris_lon\<close>, set to
  48.8566 and 2.3522 by the constructor), rounded to 2 decimals; with the reference
  \<open>(0, 0)\<close> a sample at \<open>(0, 0)\<close> gets the distance \<open>0\<close>.
\<close>

theorem distance_to_reference_rounded:
  "distance_to_paris self lat lon
     = Inr (py_round (haversine_km lat lon (paris_lat self) (paris_lon self)) 2)
   \<and> (\<exists>r. enrich self p = Inr r
          \<and> position.distance_to_paris_km r
              = Some (py_round (haversine_km (position.latitude p) (position.longitude p)
                                  (paris_lat self) (paris_lon self)) 2))
   \<and> distance_to_paris (self\<lparr>paris_lat := 0, paris_lon := 0\<rparr>) 0 0 = Inr 0
   \<and> paris_lat (ISSDataGenerator dir ival) = 48.8566
   \<and> paris_lon (ISSDataGenerator dir ival) = 2.3522"
  by (simp add: distance_to_paris_eq enrich_closed haversine_km_same py_round_0 ISSDataGenerator_def)

theorem distance_to_reference_rounded_witness:
  "distance_to_paris ((ISSDataGenerator ''out'' 5)\<lparr>paris_lat := 0, paris_lon := 0\<rparr>) 0 0 = Inr 0
   \<and> (\<exists>r. enrich ((ISSDataGenerator ''out'' 5)\<lparr>paris_lat := 0, paris_lon := 0\<rparr>)
              (fetched 0 0 100 ''a'') = Inr r
         \<and> position.distance_to_paris_km r = Some 0)"
  using distance_to_reference_rounded
          [of "(ISSDataGenerator ''out'' 5)\<lparr>paris_lat := 0, paris_lon := 0\<rparr>" 0 0
              "fetched 0 0 100 ''a''" "''out''" 5]
  by (simp add: fetched_def haversine_km_same py_round_0)

text \<open>
  Claim C7. \<^verbatim>\<open>fetch_position\<close> repeats a request that fails with a \<^verbatim>\<open>RequestException\<close>,
  up to \<^verbatim>\<open>max_retries\<close> requests (3 by default), sleeping \<open>2 ^ attempt\<close> seconds between
  one attempt and the next (attempts counted from 0), and returns \<open>None\<close> once all
  attempts have failed. A success after \<open>j\<close> failures is returned after the same sleeps,
  and no answers of the network make it send more than \<^verbatim>\<open>max_retries\<close> requests.
\<close>

theorem fetch_position_retries_with_backoff:
  "(0 < n \<and> max_retries self = int n \<and> (\<forall>k<n. net k = RequestException) \<longrightarrow>
      fetch_position self net now
        = (Inr None, concat (map (\<lambda>k. [Get, Sleep (2 ^ k)]) [0 ..< n - 1]) @ [Get]))
   \<and> (max_retries self = int n \<and> j < n \<and> (\<forall>k<j. net k = RequestException)
        \<and> net j = Success lat lon ts \<longrightarrow>
      fetch_position self net now
        = (Inr (Some (fetched lat lon ts now)),
           concat (map (\<lambda>k. [Get, Sleep (2 ^ k)]) [0 ..< j]) @ [Get]))
   \<and> int (length (filter (\<lambda>e. e = Get) (snd (fetch_position self net now))))
        \<le> max (max_retries self) 0
   \<and> max_retries ISSDataFetcher = 3"
proof -
  have a: "0 < n \<and> max_retries self = int n \<and> (\<forall>k<n. net k = RequestException) \<longrightarrow>
      fetch_position self net now
        = (Inr None, concat (map (\<lambda>k. [Get, Sleep (2 ^ k)]) [0 ..< n - 1]) @ [Get])"
    using fetch_loop_all_fail [of self n net 0 now "[]"]
    by (simp add: fetch_position_def)
  have b: "max_retries self = int n \<and> j < n \<and> (\<forall>k<j. net k = RequestException)
        \<and> net j = Success lat lon ts \<longrightarrow>
      fetch_position self net now
        = (Inr (Some (fetched lat lon ts now)),
           concat (map (\<lambda>k. [Get, Sleep (2 ^ k)]) [0 ..< j]) @ [Get])"
    using fetch_loop_fail_then_success [of self n j net lat lon ts 0 now "[]"]
    by (simp add: fetch_position_def fetched_def)
  have c: "int (length (filter (\<lambda>e. e = Get) (snd (fetch_position self net now))))
        \<le> max (max_retries self) 0"
    using fetch_loop_trace_grows [of self net now 0 "[]"]
    by (auto simp: fetch_position_def)
  show ?thesis using a b c by (simp add: ISSDataFetcher_def)
qed

theorem fetch_position_retries_with_backoff_witness:
  "fetch_position ISSDataFetcher (\<lambda>k. RequestException) ''t''
     = (Inr None, [Get, Sleep 1, Get, Sleep 2, Get])
   \<and> fetch_position ISSDataFetcher (\<lambda>k. if k < 2 then RequestException else Success 1 2 100) ''t''
     = (Inr (Some (fetched 1 2 100 ''t'')), [Get, Sleep 1, Get, Sleep 2, Get])"
proof -
  have u: "[0 ..< (2::nat)] = [0, 1]" by (simp add: upt_rec)
  show ?thesis
    using fetch_position_retries_with_backoff
            [of 3 ISSDataFetcher "\<lambda>k. RequestException" "''t''" 0 0 0 0]
          fetch_position_retries_with_backoff
            [of 3 ISSDataFetcher "\<lambda>k. if k < 2 then RequestException else Success 1 2 100"
                "''t''" 2 1 2 100]
    by (simp add: ISSDataFetcher_def u)
qed

text \<open>
  Claim C8, as amended. \<^verbatim>\<open>process_stream\<close> classifies the coordinates as they are read,
  before it rounds them: \<^verbatim>\<open>hemisphere_ns\<close> is \<^verbatim>\<open>North\<close> exactly when the latitude read
  from the input record is at least \<open>0\<close> and \<^verbatim>\<open>South\<close> otherwise, and \<^verbatim>\<open>hemisphere_ew\<close>
  is \<^verbatim>\<open>East\<close> exactly when the longitude read is at least \<open>0\<close> and \<^verbatim>\<open>West\<close> otherwise
  (lines 92 to 95; a \<^verbatim>\<open>NULL\<close> coordinate is not at least \<open>0\<close>). Lines 98 and 99 then
  replace the two columns by their roundings to 4 decimals. For the coordinates of the
  processed record this leaves: a latitude above \<open>0\<close> goes with \<^verbatim>\<open>North\<close> and one
  below \<open>0\<close> with \<^verbatim>\<open>South\<close>, a longitude above \<open>0\<close> with \<^verbatim>\<open>East\<close> and one below \<open>0\<close>
  with \<^verbatim>\<open>West\<close>; a rounded coordinate that is exactly \<open>0\<close> goes with either side,
  as the value read decides.
\<close>

theorem hemispheres_by_sign:
  "(hemisphere_ns (process_stream df) = ''North''
      \<longleftrightarrow> (\<exists>lat. raw_row.latitude df = Some lat \<and> 0 \<le> lat))
   \<and> (hemisphere_ns (process_stream df) = ''South''
      \<longleftrightarrow> \<not> (\<exists>lat. raw_row.latitude df = Some lat \<and> 0 \<le> lat))
   \<and> (hemisphere_ew (process_stream df) = ''East''
      \<longleftrightarrow> (\<exists>lon. raw_row.longitude df = Some lon \<and> 0 \<le> lon))
   \<and> (hemisphere_ew (process_stream df) = ''West''
      \<longleftrightarrow> \<not> (\<exists>lon. raw_row.longitude df = Some lon \<and> 0 \<le> lon))
   \<and> (\<forall>y. raw_row.latitude (process_stream df) = Some y \<longrightarrow>
         (0 < y \<longrightarrow> hemisphere_ns (process_stream df) = ''North'')
       \<and> (y < 0 \<longrightarrow> hemisphere_ns (process_stream df) = ''South''))
   \<and> (\<forall>y. raw_row.longitude (process_stream df) = Some y \<longrightarrow>
         (0 < y \<longrightarrow> hemisphere_ew (process_stream df) = ''East'')
       \<and> (y < 0 \<longrightarrow> hemisphere_ew (process_stream df) = ''West''))"
proof -
  have ns: "\<forall>y. raw_row.latitude (process_stream df) = Some y \<longrightarrow>
         (0 < y \<longrightarrow> hemisphere_ns (process_stream df) = ''North'')
       \<and> (y < 0 \<longrightarrow> hemisphere_ns (process_stream df) = ''South'')"
    using spark_round_sign [of "raw_row.latitude df" 4]
    by (auto simp: process_stream_rounded process_stream_hemispheres)
  have ew: "\<forall>y. raw_row.longitude (process_stream df) = Some y \<longrightarrow>
         (0 < y \<longrightarrow> hemisphere_ew (process_stream df) = ''East'')
       \<and> (y < 0 \<longrightarrow> hemisphere_ew (process_stream df) = ''West'')"
    using spark_round_sign [of "raw_row.longitude df" 4]
    by (auto simp: process_stream_rounded process_stream_hemispheres)
  show ?thesis using ns ew by (simp add: process_stream_hemispheres)
qed

theorem hemispheres_by_sign_witness:
  "hemisphere_ns (process_stream (row_at (Some 0) (Some (- 3)))) = ''North''
   \<and> hemisphere_ew (process_stream (row_at (Some 0) (Some (- 3)))) = ''West''
   \<and> raw_row.longitude (process_stream (row_at (Some 0) (Some (- 3)))) = Some (- 3)
   \<and> hemisphere_ns (process_stream (row_at (Some (- 51)) None)) = ''South''
   \<and> hemisphere_ew (process_stream (row_at (Some (- 51)) None)) = ''West''
   \<and> hemisphere_ew (process_stream (row_at (Some (- 51)) (Some 7))) = ''East''
   \<and> raw_row.latitude (process_stream (row_at (Some (- 51)) (Some 7))) = Some (- 51)
   \<and> raw_row.longitude (process_stream (row_at (Some (- 51)) (Some 7))) = Some 7"
proof -
  have r: "spark_round (Some (- 3)) 4 = Some (- 3)" "spark_round (Some (- 51)) 4 = Some (- 51)"
    "spark_round (Some 7) 4 = Some 7"
    using round_half_up_of_int [of "- 30000"] round_half_up_of_int [of "- 510000"]
      round_half_up_of_int [of 70000]
    by (simp_all add: spark_round_def)
  show ?thesis
    using hemispheres_by_sign [of "row_at (Some 0) (Some (- 3))"]
          hemispheres_by_sign [of "row_at (Some (- 51)) None"]
          hemispheres_by_sign [of "row_at (Some (- 51)) (Some 7)"]
    by (simp add: row_at_def process_stream_rounded r)
qed

text \<open>
  Claim C8 as first stated, with the latitude and longitude of the processed record
  itself, fails: a record read with latitude and longitude \<open>-0.00003\<close> is processed
  into one whose latitude and longitude are \<open>0\<close>, which is at least \<open>0\<close>, and whose
  hemispheres are \<^verbatim>\<open>South\<close> and \<^verbatim>\<open>West\<close>.
\<close>

theorem hemispheres_of_rounded_zero_counterexample:
  "raw_row.latitude (process_stream (row_at (Some (- 3 / 100000)) (Some (- 3 / 100000)))) = Some 0
   \<and> (0::real) \<le> 0
   \<and> hemisphere_ns (process_stream (row_at (Some (- 3 / 100000)) (Some (- 3 / 100000)))) = ''South''
   \<and> hemisphere_ns (process_stream (row_at (Some (- 3 / 100000)) (Some (- 3 / 100000)))) \<noteq> ''North''
   \<and> raw_row.longitude (process_stream (row_at (Some (- 3 / 100000)) (Some (- 3 / 100000)))) = Some 0
   \<and> hemisphere_ew (process_stream (row_at (Some (- 3 / 100000)) (Some (- 3 / 100000)))) = ''West''
   \<and> hemisphere_ew (process_stream (row_at (Some (- 3 / 100000)) (Some (- 3 / 100000)))) \<noteq> ''East''"
proof -
  have f: "\<lfloor>(4 / 5 :: real)\<rfloor> = 0" by simp
  have r: "round_half_up (- 3 / 100000 * 10 ^ 4) = 0"
    by (simp add: round_half_up_def f)
  have s: "spark_round (Some (- 3 / 100000)) 4 = Some 0"
    unfolding spark_round_def using r by simp
  show ?thesis
    using s by (simp add: process_stream_rounded process_stream_hemispheres row_at_def)
qed

text \<open>
  Claim C9. The enrichment is a function of the current and the prior reading alone.
  Two runs whose current samples are the same reading, whose stored prior samples are
  the same reading (or both absent) and whose reference coordinates agree give the same
  \<^verbatim>\<open>velocity_km_s\<close>, \<^verbatim>\<open>orbit_phase\<close>, \<^verbatim>\<open>distance_to_paris_km\<close> and hemispheres, whatever
  the \<^verbatim>\<open>fetch_time\<close> of the samples, which is handed on untouched. The clock read for
  the file name changes neither the record that is written nor the generator.
\<close>

theorem enrichment_independent_of_wall_clock:
  assumes "same_reading p p'"
    and "rel_option same_reading (previous_position self) (previous_position self')"
    and "paris_lat self = paris_lat self'" and "paris_lon self = paris_lon self'"
  shows "\<exists>r r'. enrich self p = Inr r \<and> enrich self' p' = Inr r'
      \<and> position.velocity_km_s r = position.velocity_km_s r'
      \<and> position.orbit_phase r = position.orbit_phase r'
      \<and> position.distance_to_paris_km r = position.distance_to_paris_km r'
      \<and> hemisphere_ns (process_stream (json_row r)) = hemisphere_ns (process_stream (json_row r'))
      \<and> hemisphere_ew (process_stream (json_row r)) = hemisphere_ew (process_stream (json_row r'))
      \<and> position.fetch_time r = position.fetch_time p
      \<and> position.fetch_time r' = position.fetch_time p'
      \<and> map snd (files (fst (poll_cycle st (Some p) now)))
          = map snd (files (fst (poll_cycle st (Some p) now')))
      \<and> gen (fst (poll_cycle st (Some p) now)) = gen (fst (poll_cycle st (Some p) now'))"
proof -
  have pp: "position.latitude p = position.latitude p'"
    "position.longitude p = position.longitude p'"
    using assms(1) by (simp_all add: same_reading_def)
  have v: "(case previous_position self of None \<Rightarrow> 0 | Some prev \<Rightarrow> spec_velocity prev p)
         = (case previous_position self' of None \<Rightarrow> 0 | Some prev \<Rightarrow> spec_velocity prev p')"
    using assms(1,2) by (auto simp: option.rel_sel spec_velocity_cong split: option.splits)
  have o: "(case previous_position self of None \<Rightarrow> ''UNKNOWN''
            | Some prev \<Rightarrow> if position.latitude prev < position.latitude p then ''ASCENDING''
                           else ''DESCENDING'')
         = (case previous_position self' of None \<Rightarrow> ''UNKNOWN''
            | Some prev \<Rightarrow> if position.latitude prev < position.latitude p' then ''ASCENDING''
                           else ''DESCENDING'')"
    using assms(1,2) by (auto simp: option.rel_sel same_reading_def split: option.splits)
  have f: "map snd (files (fst (poll_cycle st (Some p) now)))
          = map snd (files (fst (poll_cycle st (Some p) now')))"
    by (simp add: files_poll_cycle on_position_Some enrich_closed)
  have g: "gen (fst (poll_cycle st (Some p) now)) = gen (fst (poll_cycle st (Some p) now'))"
    by (simp add: gen_poll_cycle on_position_Some enrich_closed)
  show ?thesis
    using v o f g pp assms(3,4)
    by (simp add: enrich_closed process_stream_hemispheres json_row_def)
qed

theorem enrichment_independent_of_wall_clock_witness:
  "same_reading (fetched 11 3 105 ''noon'') (fetched 11 3 105 ''midnight'')
   \<and> position.fetch_time (fetched 11 3 105 ''noon'')
       \<noteq> position.fetch_time (fetched 11 3 105 ''midnight'')
   \<and> (\<exists>r r'. enrich (generator_after (fetched 10 0 100 ''a'')) (fetched 11 3 105 ''noon'') = Inr r
         \<and> enrich (generator_after (fetched 10 0 100 ''b'')) (fetched 11 3 105 ''midnight'') = Inr r'
         \<and> position.velocity_km_s r = position.velocity_km_s r'
         \<and> position.orbit_phase r = position.orbit_phase r'
         \<and> position.distance_to_paris_km r = position.distance_to_paris_km r'
         \<and> position.fetch_time r = ''noon'' \<and> position.fetch_time r' = ''midnight'')"
proof -
  have a: "same_reading (fetched 11 3 105 ''noon'') (fetched 11 3 105 ''midnight'')"
    by (simp add: same_reading_def fetched_def)
  have b: "rel_option same_reading
             (previous_position (generator_after (fetched 10 0 100 ''a'')))
             (previous_position (generator_after (fetched 10 0 100 ''b'')))"
    by (simp add: generator_after_def same_reading_def fetched_def)
  have c: "paris_lat (generator_after (fetched 10 0 100 ''a''))
             = paris_lat (generator_after (fetched 10 0 100 ''b''))"
    "paris_lon (generator_after (fetched 10 0 100 ''a''))
             = paris_lon (generator_after (fetched 10 0 100 ''b''))"
    by (simp_all add: generator_after_def ISSDataGenerator_def)
  have d: "position.fetch_time (fetched 11 3 105 ''noon'') = ''noon''"
    "position.fetch_time (fetched 11 3 105 ''midnight'') = ''midnight''"
    by (simp_all add: fetched_def)
  show ?thesis
    using enrichment_independent_of_wall_clock [OF a b c] a unfolding d
    by fastforce
qed

end
